theory Spec2Isabelle
  imports Complex_Main "HOL-Library.Multiset"
begin

section \<open>Python values\<close>

text \<open>
  A Python \<open>str\<close> is a sequence of Unicode code points, and slicing (\<open>s[:50]\<close>) counts
  code points. It is modelled as a list of code points; \<open>ascii\<close> embeds an ASCII literal.
  The three pictographs of the status texts are U+2705 (9989), U+274C (10060) and
  U+26A0 U+FE0F (9888, 65039).
\<close>

type_synonym pystr = "nat list"

definition ascii :: "string \<Rightarrow> pystr" where
  "ascii s = map of_char s"

text \<open>
  Every \<open>except\<close> clause of the service catches \<open>Exception\<close> and only ever reads
  \<open>str(e)\<close>, so an exception is modelled by that text.
\<close>

datatype pyexc = PyExc pystr

fun str_exc :: "pyexc \<Rightarrow> pystr" where
  "str_exc (PyExc m) = m"

text \<open>
  A \<open>datetime\<close> is either naive (no \<open>tzinfo\<close>) or aware; the integer is its position on
  the time line in microseconds (wall clock for a naive value, UTC instant for an aware one).
  \<open>datetime.now(timezone.utc)\<close> is aware.
\<close>

datatype pydatetime = Naive int | Aware int

text \<open>
  The values a JSON body or a stored document can hold. The type \<open>'f\<close> of floats is left
  abstract: no arithmetic on floats happens anywhere in the service.
\<close>

datatype 'f pyval =
    VNone
  | VBool bool
  | VInt int
  | VFloat 'f
  | VStr pystr
  | VDatetime pydatetime

type_synonym 'f document = "string \<rightharpoonup> 'f pyval"

text \<open>
  The conversions that the interpreter and pydantic apply to a value that does not already
  have the target type are not code of this repository. They are parameters of the model:
  \<open>float_zero\<close> is the float \<open>float(0)\<close>, a conversion that never raises, \<open>float_of v\<close> is
  \<open>float(v)\<close> for any other \<open>v\<close> that is not a float, \<open>int_of v\<close> is \<open>int(v)\<close> for a \<open>v\<close>
  that is not an int, and \<open>datetime_of v\<close> is pydantic's validation, as a \<open>datetime\<close>
  field, of a \<open>v\<close> that is not a datetime; \<open>coerce_float v\<close> and \<open>coerce_int v\<close> are
  pydantic's coercions of a request value \<open>v\<close> that is not a float, respectively not an
  int, to a field or parameter of that type. Each of them but \<open>float_zero\<close> may raise.
\<close>

record 'f runtime =
  float_zero :: 'f
  float_of :: "'f pyval \<Rightarrow> pyexc + 'f"
  int_of :: "'f pyval \<Rightarrow> pyexc + int"
  datetime_of :: "'f pyval \<Rightarrow> pyexc + pydatetime"
  coerce_float :: "'f pyval \<Rightarrow> pyexc + 'f"
  coerce_int :: "'f pyval \<Rightarrow> pyexc + int"

definition py_float :: "'f runtime \<Rightarrow> 'f pyval \<Rightarrow> pyexc + 'f" where
  "py_float R v =
     (case v of
        VFloat x \<Rightarrow> Inr x
      | VInt n \<Rightarrow> (if n = 0 then Inr (float_zero R) else float_of R v)
      | _ \<Rightarrow> float_of R v)"

definition py_int :: "'f runtime \<Rightarrow> 'f pyval \<Rightarrow> pyexc + int" where
  "py_int R v = (case v of VInt n \<Rightarrow> Inr n | _ \<Rightarrow> int_of R v)"

definition validate_datetime :: "'f runtime \<Rightarrow> 'f pyval \<Rightarrow> pyexc + pydatetime" where
  "validate_datetime R v = (case v of VDatetime t \<Rightarrow> Inr t | _ \<Rightarrow> datetime_of R v)"

text \<open>Sequencing of computations that may raise: the first exception wins.\<close>

definition and_then :: "'e + 'a \<Rightarrow> ('a \<Rightarrow> 'e + 'b) \<Rightarrow> 'e + 'b" where
  "and_then m k = (case m of Inl e \<Rightarrow> Inl e | Inr x \<Rightarrow> k x)"


section \<open>The environment and the database handle\<close>

text \<open>\<open>os.getenv(k)\<close> is \<open>None\<close> or a string; \<open>if os.getenv(k)\<close> holds for a non-empty one.\<close>

type_synonym environ = "string \<Rightarrow> pystr option"

definition truthy :: "pystr option \<Rightarrow> bool" where
  "truthy v = (case v of None \<Rightarrow> False | Some s \<Rightarrow> s \<noteq> [])"

text \<open>
  What reading an attribute of an object does: the attribute is absent (\<open>AttributeError\<close>,
  which \<open>hasattr\<close> turns into \<open>False\<close>), present, or its getter raises something else,
  which \<open>hasattr\<close> lets through.
\<close>

datatype 'a attr = NoAttr | Attr 'a | AttrRaises pyexc

text \<open>
  Modelled from the spec: the module \<open>database\<close> (the handle \<open>db\<close>, \<open>create_document\<close>,
  \<open>get_documents\<close>) is not part of the sources. Section 4.1 of the specification describes a
  persistence adapter over named collections of documents, kept in insertion order, whose
  operations fail with a storage error when the connection is lost. A handle holds its
  \<open>name\<close> attribute, the collections in creation order, the pending failure of the
  connection (if any) and the counter from which identifiers are drawn. The global \<open>db\<close> is
  an optional handle: \<open>None\<close> is the disabled adapter.
\<close>

record 'f db_handle =
  name_attr :: "pystr attr"
  colls :: "(pystr \<times> 'f document list) list"
  fault :: "pyexc option"
  next_id :: nat

text \<open>
  Modelled from the spec: the inspection of the handle (section 4.1: the adapter can list
  the existing collection names, and an inspection may fail).
\<close>

definition list_collection_names :: "'f db_handle \<Rightarrow> pyexc + pystr list" where
  "list_collection_names h =
     (case fault h of Some e \<Rightarrow> Inl e | None \<Rightarrow> Inr (map fst (colls h)))"


section \<open>The diagnostic route\<close>

record test_response =
  backend :: pystr
  database :: pystr
  database_url :: "pystr option"
  database_name :: "pystr option"
  connection_status :: pystr
  collections :: "pystr list"

definition initial_response :: test_response where
  "initial_response =
     \<lparr> backend = 9989 # ascii '' Running'',
       database = 10060 # ascii '' Not Available'',
       database_url = None,
       database_name = None,
       connection_status = ascii ''Not Connected'',
       collections = [] \<rparr>"

definition set_or_not :: "environ \<Rightarrow> string \<Rightarrow> pystr" where
  "set_or_not env k =
     (if truthy (env k) then 9989 # ascii '' Set'' else 10060 # ascii '' Not Set'')"

text \<open>\<open>db.name if hasattr(db, 'name') else "... Connected"\<close> (line 45).\<close>

definition read_name :: "'f db_handle \<Rightarrow> pyexc + pystr" where
  "read_name h =
     (case name_attr h of
        NoAttr \<Rightarrow> Inr (9989 # ascii '' Connected'')
      | Attr n \<Rightarrow> Inr n
      | AttrRaises e \<Rightarrow> Inl e)"

text \<open>The inner \<open>try\<close>/\<open>except\<close> (lines 47 to 52), acting on the response dictionary.\<close>

definition inspect_collections :: "'f db_handle \<Rightarrow> test_response \<Rightarrow> test_response" where
  "inspect_collections h response =
     (case list_collection_names h of
        Inr cs \<Rightarrow>
          response\<lparr> collections := take 10 cs,
                    database := 9989 # ascii '' Connected & Working'' \<rparr>
      | Inl e \<Rightarrow>
          response\<lparr> database :=
            [9888, 65039] @ ascii ''  Connected but Error: '' @ take 50 (str_exc e) \<rparr>)"

text \<open>
  The body of the outer \<open>try\<close> (lines 42 to 54). The dictionary is mutated in place, so an
  exception leaves the updates made before it: the body returns the dictionary together
  with the exception raised, if any.
\<close>

definition inspect_db ::
  "environ \<Rightarrow> 'f db_handle option \<Rightarrow> test_response \<Rightarrow> test_response \<times> pyexc option" where
  "inspect_db env db response =
     (case db of
        Some h \<Rightarrow>
          (let response = response\<lparr> database := 9989 # ascii '' Available'',
                                     database_url := Some (set_or_not env ''DATABASE_URL'') \<rparr>
           in case read_name h of
                Inl e \<Rightarrow> (response, Some e)
              | Inr n \<Rightarrow>
                  (inspect_collections h
                     (response\<lparr> database_name := Some n,
                                connection_status := ascii ''Connected'' \<rparr>),
                   None))
      | None \<Rightarrow>
          (response\<lparr> database := [9888, 65039] @ ascii ''  Available but not initialized'' \<rparr>,
           None))"

definition test_database :: "environ \<Rightarrow> 'f db_handle option \<Rightarrow> test_response" where
  "test_database env db =
     (let (response, raised) = inspect_db env db initial_response;
          response = (case raised of
                        Some e \<Rightarrow>
                          response\<lparr> database := 10060 # ascii '' Error: '' @ take 50 (str_exc e) \<rparr>
                      | None \<Rightarrow> response)
      in response\<lparr> database_url := Some (set_or_not env ''DATABASE_URL''),
                   database_name := Some (set_or_not env ''DATABASE_NAME'') \<rparr>)"

section \<open>Schemas\<close>

text \<open>
  Modelled from the spec: the class \<open>TypingResult\<close> of the module \<open>schemas\<close> is not part of
  the sources. Section 3 of the specification gives its fields: \<open>wpm\<close> and \<open>accuracy\<close> are
  floats, \<open>mistakes\<close> and \<open>duration\<close> are integers.
\<close>

record 'f TypingResult =
  wpm :: 'f
  accuracy :: 'f
  mistakes :: int
  duration :: int

text \<open>\<open>class SaveResultRequest(TypingResult)\<close> adds \<open>user_id: Optional[str] = None\<close>.\<close>

record 'f SaveResultRequest = "'f TypingResult" +
  user_id :: "pystr option"

record SaveResultResponse =
  id_str :: pystr
  status :: pystr

text \<open>
  \<open>class ResultRecord(BaseModel)\<close> declares \<open>wpm\<close>, \<open>accuracy\<close>, \<open>mistakes\<close>, \<open>duration\<close> and
  \<open>created_at\<close>, and nothing else. Its first four fields have the names and types of those
  of \<open>TypingResult\<close>, so the record shares them.
\<close>

record 'f ResultRecord = "'f TypingResult" +
  created_at :: pydatetime

text \<open>\<open>payload.model_dump()\<close>: the dictionary of the declared fields.\<close>

definition model_dump :: "'f SaveResultRequest \<Rightarrow> 'f document" where
  "model_dump p =
     [''wpm'' \<mapsto> VFloat (wpm p),
      ''accuracy'' \<mapsto> VFloat (accuracy p),
      ''mistakes'' \<mapsto> VInt (mistakes p),
      ''duration'' \<mapsto> VInt (duration p),
      ''user_id'' \<mapsto> (case user_id p of None \<Rightarrow> VNone | Some u \<Rightarrow> VStr u)]"

text \<open>
  The response model \<open>List[ResultRecord]\<close> serialises each record to an object with the
  declared fields, in declaration order.
\<close>

definition record_fields :: "'f ResultRecord \<Rightarrow> (string \<times> 'f pyval) list" where
  "record_fields r =
     [(''wpm'', VFloat (wpm r)),
      (''accuracy'', VFloat (accuracy r)),
      (''mistakes'', VInt (mistakes r)),
      (''duration'', VInt (duration r)),
      (''created_at'', VDatetime (created_at r))]"


section \<open>Storage operations\<close>

text \<open>
  Modelled from the spec: the identifier of a stored document is an opaque, unique string
  (section 3). Here it is the decimal numeral of the handle's counter.
\<close>

fun decimal :: "nat \<Rightarrow> pystr" where
  "decimal n = (if n < 10 then [48 + n] else decimal (n div 10) @ [48 + n mod 10])"

declare decimal.simps [simp del]

text \<open>
  Modelled from the spec: the documents of a named collection, in insertion order, and the
  addition of one document to a collection, which is created when it does not exist.
\<close>

definition documents_of :: "'f db_handle \<Rightarrow> pystr \<Rightarrow> 'f document list" where
  "documents_of h c = (case map_of (colls h) c of None \<Rightarrow> [] | Some ds \<Rightarrow> ds)"

definition add_document ::
  "(pystr \<times> 'f document list) list \<Rightarrow> pystr \<Rightarrow> 'f document \<Rightarrow> (pystr \<times> 'f document list) list" where
  "add_document cs c d =
     (if c \<in> fst ` set cs
      then map (\<lambda>(n, ds). if n = c then (n, ds @ [d]) else (n, ds)) cs
      else cs @ [(c, [d])])"

text \<open>
  Modelled from the spec: \<open>create_document\<close> is not part of the sources. Section 4.1:
  \<open>insert(collectionName, document)\<close> returns a string identifier and adds one document to
  the named collection; it fails with a storage error if the connection is unavailable.
\<close>

definition create_document ::
  "'f db_handle \<Rightarrow> pystr \<Rightarrow> 'f document \<Rightarrow> (pyexc + pystr) \<times> 'f db_handle" where
  "create_document h c data =
     (case fault h of
        Some e \<Rightarrow> (Inl e, h)
      | None \<Rightarrow>
          (let i = decimal (next_id h)
           in (Inr i,
               h\<lparr> colls := add_document (colls h) c (data(''_id'' \<mapsto> VStr i)),
                  next_id := Suc (next_id h) \<rparr>)))"

text \<open>
  Modelled from the spec: \<open>get_documents\<close> is not part of the sources. Section 4.1:
  \<open>query(collectionName, filter, limit)\<close> returns the documents matching \<open>filter\<close>,
  truncated to at most \<open>limit\<close> entries, in insertion order; it fails with a storage error
  on connection loss. A filter is a list of field values that a document must have.
\<close>

definition matches :: "(string \<times> 'f pyval) list \<Rightarrow> 'f document \<Rightarrow> bool" where
  "matches flt d = list_all (\<lambda>(k, v). d k = Some v) flt"

definition get_documents ::
  "'f db_handle \<Rightarrow> pystr \<Rightarrow> (string \<times> 'f pyval) list \<Rightarrow> int \<Rightarrow> pyexc + 'f document list" where
  "get_documents h c flt limit =
     (case fault h of
        Some e \<Rightarrow> Inl e
      | None \<Rightarrow> Inr (take (nat limit) (filter (matches flt) (documents_of h c))))"


section \<open>Saving and listing results\<close>

text \<open>
  What a route sends instead of its result: an \<open>HTTPException\<close> with its status code and
  detail, or the framework's rejection of a request that fails validation, which names
  the offending fields and is answered with status 422.
\<close>

datatype http_error = HTTPException nat pystr | RequestValidationError "string list"

fun status_code :: "http_error \<Rightarrow> nat" where
  "status_code (HTTPException c m) = c"
| "status_code (RequestValidationError fs) = 422"

text \<open>The status of a response: 200 unless the route ended in an error.\<close>

definition http_status :: "http_error + 'a \<Rightarrow> nat" where
  "http_status r = (case r of Inl e \<Rightarrow> status_code e | Inr v \<Rightarrow> 200)"

definition save_result ::
  "'f db_handle option \<Rightarrow> int \<Rightarrow> 'f SaveResultRequest
     \<Rightarrow> (http_error + SaveResultResponse) \<times> 'f db_handle option" where
  "save_result db now payload =
     (case db of
        None \<Rightarrow> (Inl (HTTPException 500 (ascii ''Database not configured'')), db)
      | Some h \<Rightarrow>
          (let data = model_dump payload;
               data = data(''created_at'' \<mapsto> VDatetime (Aware now));
               collection = ascii ''typingresult''
           in case create_document h collection data of
                (Inr inserted_id, h') \<Rightarrow>
                  (Inr \<lparr> id_str = inserted_id, status = ascii ''ok'' \<rparr>, Some h')
              | (Inl e, h') \<Rightarrow> (Inl (HTTPException 500 (str_exc e)), Some h')))"

text \<open>\<open>d.get(k, default)\<close>.\<close>

definition dict_get :: "'f document \<Rightarrow> string \<Rightarrow> 'f pyval \<Rightarrow> 'f pyval" where
  "dict_get d k dflt = (case d k of None \<Rightarrow> dflt | Some v \<Rightarrow> v)"

text \<open>
  One iteration of the loop (lines 106 to 112): the arguments are evaluated from left to
  right, then pydantic validates them; \<open>now\<close> is the clock reading of this iteration.
\<close>

definition normalize_doc :: "'f runtime \<Rightarrow> int \<Rightarrow> 'f document \<Rightarrow> pyexc + 'f ResultRecord" where
  "normalize_doc R now d =
     and_then (py_float R (dict_get d ''wpm'' (VInt 0))) (\<lambda>w.
     and_then (py_float R (dict_get d ''accuracy'' (VInt 0))) (\<lambda>a.
     and_then (py_int R (dict_get d ''mistakes'' (VInt 0))) (\<lambda>m.
     and_then (py_int R (dict_get d ''duration'' (VInt 60))) (\<lambda>u.
     and_then (validate_datetime R (dict_get d ''created_at'' (VDatetime (Aware now)))) (\<lambda>c.
       Inr \<lparr> wpm = w, accuracy = a, mistakes = m, duration = u, created_at = c \<rparr>)))))"

text \<open>The loop over \<open>docs\<close>; \<open>clock i\<close> is the clock reading of iteration \<open>i\<close>.\<close>

fun normalize_docs ::
  "'f runtime \<Rightarrow> (nat \<Rightarrow> int) \<Rightarrow> nat \<Rightarrow> 'f document list \<Rightarrow> pyexc + 'f ResultRecord list" where
  "normalize_docs R clock i [] = Inr []"
| "normalize_docs R clock i (d # ds) =
     and_then (normalize_doc R (clock i) d) (\<lambda>r.
     and_then (normalize_docs R clock (Suc i) ds) (\<lambda>rs. Inr (r # rs)))"

text \<open>
  \<open>results.sort(key=lambda x: x.created_at)\<close>: the stable sort of the interpreter. Comparing
  a naive with an aware datetime raises \<open>TypeError\<close>, and a sort of a list holding both has
  to compare such a pair.
\<close>

fun is_naive :: "pydatetime \<Rightarrow> bool" where
  "is_naive (Naive t) = True"
| "is_naive (Aware t) = False"

fun instant :: "pydatetime \<Rightarrow> int" where
  "instant (Naive t) = t"
| "instant (Aware t) = t"

definition mixed_zones :: "pydatetime list \<Rightarrow> bool" where
  "mixed_zones ts = (list_ex is_naive ts \<and> list_ex (\<lambda>t. \<not> is_naive t) ts)"

definition sort_results :: "'f ResultRecord list \<Rightarrow> pyexc + 'f ResultRecord list" where
  "sort_results results =
     (if mixed_zones (map created_at results)
      then Inl (PyExc (ascii ''can'' @ [39] @
                        ascii ''t compare offset-naive and offset-aware datetimes''))
      else Inr (sort_key (\<lambda>x. instant (created_at x)) results))"

definition list_results ::
  "'f runtime \<Rightarrow> (nat \<Rightarrow> int) \<Rightarrow> 'f db_handle option \<Rightarrow> int option
     \<Rightarrow> http_error + 'f ResultRecord list" where
  "list_results R clock db limit_param =
     (let limit = (case limit_param of None \<Rightarrow> 50 | Some n \<Rightarrow> n)
      in case db of
           None \<Rightarrow> Inl (HTTPException 500 (ascii ''Database not configured''))
         | Some h \<Rightarrow>
             (case and_then (get_documents h (ascii ''typingresult'') [] limit) (\<lambda>docs.
                   and_then (normalize_docs R clock 0 docs) sort_results) of
                Inr results \<Rightarrow> Inr results
              | Inl e \<Rightarrow> Inl (HTTPException 500 (str_exc e))))"


section \<open>The routes as the framework serves them\<close>

text \<open>
  Modelled from the spec: the framework validates the body of \<open>POST /api/results\<close> against
  \<open>SaveResultRequest\<close> before it calls \<open>save_result\<close> (section 4.2: the fields are coerced
  to their declared types, and a value that cannot be coerced is rejected before any storage
  call). The four fields of \<open>TypingResult\<close> are required, \<open>user_id\<close> is an optional string,
  other members of the body are ignored.
\<close>

definition required_float :: "'f runtime \<Rightarrow> 'f document \<Rightarrow> string \<Rightarrow> pyexc + 'f" where
  "required_float R body k =
     (case body k of
        None \<Rightarrow> Inl (PyExc (ascii ''Field required''))
      | Some (VFloat x) \<Rightarrow> Inr x
      | Some v \<Rightarrow> coerce_float R v)"

definition required_int :: "'f runtime \<Rightarrow> 'f document \<Rightarrow> string \<Rightarrow> pyexc + int" where
  "required_int R body k =
     (case body k of
        None \<Rightarrow> Inl (PyExc (ascii ''Field required''))
      | Some (VInt n) \<Rightarrow> Inr n
      | Some v \<Rightarrow> coerce_int R v)"

definition optional_str :: "'f document \<Rightarrow> string \<Rightarrow> pyexc + pystr option" where
  "optional_str body k =
     (case body k of
        None \<Rightarrow> Inr None
      | Some VNone \<Rightarrow> Inr None
      | Some (VStr s) \<Rightarrow> Inr (Some s)
      | Some v \<Rightarrow> Inl (PyExc (ascii ''Input should be a valid string'')))"

text \<open>
  Modelled from the spec: the validation of a whole body. Every field is checked, and the
  rejection names each field that failed.
\<close>

definition validate_request :: "'f runtime \<Rightarrow> 'f document \<Rightarrow> http_error + 'f SaveResultRequest" where
  "validate_request R body =
     (let w = required_float R body ''wpm'';
          a = required_float R body ''accuracy'';
          m = required_int R body ''mistakes'';
          u = required_int R body ''duration'';
          i = optional_str body ''user_id''
      in case (w, a, m, u, i) of
           (Inr w', Inr a', Inr m', Inr u', Inr i') \<Rightarrow>
             Inr \<lparr> wpm = w', accuracy = a', mistakes = m', duration = u', user_id = i' \<rparr>
         | _ \<Rightarrow>
             Inl (RequestValidationError
                    (map fst (filter snd
                       [(''wpm'', isl w), (''accuracy'', isl a), (''mistakes'', isl m),
                        (''duration'', isl u), (''user_id'', isl i)]))))"

text \<open>
  Modelled from the spec: \<open>POST /api/results\<close> as served, validation first, then the
  handler.
\<close>

definition post_results ::
  "'f runtime \<Rightarrow> 'f db_handle option \<Rightarrow> int \<Rightarrow> 'f document
     \<Rightarrow> (http_error + SaveResultResponse) \<times> 'f db_handle option" where
  "post_results R db now body =
     (case validate_request R body of
        Inl e \<Rightarrow> (Inl e, db)
      | Inr payload \<Rightarrow> save_result db now payload)"

text \<open>
  \<open>GET /api/results\<close> as served. The handler declares \<open>limit: int = 50\<close> (line 97), so the
  framework converts the query parameter, a text, to an integer before it calls
  \<open>list_results\<close>, and answers a text that is no integer with the validation error; an
  absent parameter leaves the default.
\<close>

definition validate_limit :: "'f runtime \<Rightarrow> pystr option \<Rightarrow> http_error + int option" where
  "validate_limit R q =
     (case q of
        None \<Rightarrow> Inr None
      | Some s \<Rightarrow>
          (case coerce_int R (VStr s) of
             Inl e \<Rightarrow> Inl (RequestValidationError [''limit''])
           | Inr n \<Rightarrow> Inr (Some n)))"

definition get_results ::
  "'f runtime \<Rightarrow> (nat \<Rightarrow> int) \<Rightarrow> 'f db_handle option \<Rightarrow> pystr option
     \<Rightarrow> http_error + 'f ResultRecord list" where
  "get_results R clock db q =
     (case validate_limit R q of
        Inl e \<Rightarrow> Inl e
      | Inr limit \<Rightarrow> list_results R clock db limit)"

text \<open>\<open>GET /test\<close>: the handler has no statement outside its \<open>try\<close> that can raise.\<close>

definition get_test :: "environ \<Rightarrow> 'f db_handle option \<Rightarrow> http_error + test_response" where
  "get_test env db = Inr (test_database env db)"


section \<open>The rendering of a stored document, in the specification's words\<close>

text \<open>
  Section 4.2 of the specification: each document is coerced to the shape of a result,
  a missing \<open>wpm\<close>, \<open>accuracy\<close> or \<open>mistakes\<close> defaults to 0, a missing \<open>duration\<close> to 60 and
  a missing \<open>created_at\<close> to the current time. This definition is written from those words,
  to be compared with \<open>normalize_doc\<close>.
\<close>

definition expected_record :: "'f runtime \<Rightarrow> int \<Rightarrow> 'f document \<Rightarrow> 'f ResultRecord" where
  "expected_record R now d =
     \<lparr> wpm = (case d ''wpm'' of
                None \<Rightarrow> float_zero R
              | Some v \<Rightarrow> (case py_float R v of Inr x \<Rightarrow> x | Inl e \<Rightarrow> float_zero R)),
       accuracy = (case d ''accuracy'' of
                None \<Rightarrow> float_zero R
              | Some v \<Rightarrow> (case py_float R v of Inr x \<Rightarrow> x | Inl e \<Rightarrow> float_zero R)),
       mistakes = (case d ''mistakes'' of
                None \<Rightarrow> 0
              | Some v \<Rightarrow> (case py_int R v of Inr n \<Rightarrow> n | Inl e \<Rightarrow> 0)),
       duration = (case d ''duration'' of
                None \<Rightarrow> 60
              | Some v \<Rightarrow> (case py_int R v of Inr n \<Rightarrow> n | Inl e \<Rightarrow> 60)),
       created_at = (case d ''created_at'' of
                None \<Rightarrow> Aware now
              | Some v \<Rightarrow> (case validate_datetime R v of Inr t \<Rightarrow> t | Inl e \<Rightarrow> Aware now)) \<rparr>"

text \<open>
  A field that is present converts: \<open>wpm\<close> and \<open>accuracy\<close> by \<open>float\<close>, \<open>mistakes\<close> and
  \<open>duration\<close> by \<open>int\<close>, and \<open>created_at\<close> validates as a datetime. Other fields are never
  read.
\<close>

definition field_converts :: "'f runtime \<Rightarrow> string \<Rightarrow> 'f pyval \<Rightarrow> bool" where
  "field_converts R k v =
     (if k = ''wpm'' \<or> k = ''accuracy'' then \<not> isl (py_float R v)
      else if k = ''mistakes'' \<or> k = ''duration'' then \<not> isl (py_int R v)
      else if k = ''created_at'' then \<not> isl (validate_datetime R v)
      else True)"

definition document_converts :: "'f runtime \<Rightarrow> 'f document \<Rightarrow> bool" where
  "document_converts R d =
     list_all (\<lambda>k. case d k of None \<Rightarrow> True | Some v \<Rightarrow> field_converts R k v)
       [''wpm'', ''accuracy'', ''mistakes'', ''duration'', ''created_at'']"

text \<open>
  The \<open>created_at\<close> of a document is naive when it is present and validates to a naive
  datetime; a missing one is not, since its default is aware. The documents of a list have
  uniform zones when all of them or none of them have a naive \<open>created_at\<close>.
\<close>

definition naive_created_at :: "'f runtime \<Rightarrow> 'f document \<Rightarrow> bool" where
  "naive_created_at R d =
     (case d ''created_at'' of
        None \<Rightarrow> False
      | Some v \<Rightarrow> (case validate_datetime R v of Inr t \<Rightarrow> is_naive t | Inl e \<Rightarrow> False))"

definition uniform_zones :: "'f runtime \<Rightarrow> 'f document list \<Rightarrow> bool" where
  "uniform_zones R ds =
     (list_all (naive_created_at R) ds \<or> list_all (\<lambda>d. \<not> naive_created_at R d) ds)"


section \<open>Concrete inputs\<close>

text \<open>
  The inputs at which the properties below are evaluated. Floats are rationals there, and
  \<open>plain_runtime\<close> converts integers and booleans exactly, reads a text of decimal digits
  as an integer field, and converts nothing else: no other text is numeric for it, and only
  a datetime is a datetime.
\<close>

definition plain_runtime :: "rat runtime" where
  "plain_runtime =
     \<lparr> float_zero = 0,
       float_of = (\<lambda>v. case v of
          VInt n \<Rightarrow> Inr (of_int n)
        | VBool b \<Rightarrow> Inr (if b then 1 else 0)
        | VStr s \<Rightarrow> Inl (PyExc (ascii ''could not convert string to float''))
        | _ \<Rightarrow> Inl (PyExc (ascii ''float() argument must be a string or a real number''))),
       int_of = (\<lambda>v. case v of
          VBool b \<Rightarrow> Inr (if b then 1 else 0)
        | VFloat x \<Rightarrow> Inr (if 0 \<le> x then \<lfloor>x\<rfloor> else \<lceil>x\<rceil>)
        | VStr s \<Rightarrow> Inl (PyExc (ascii ''invalid literal for int() with base 10''))
        | _ \<Rightarrow> Inl (PyExc (ascii ''int() argument must be a string or a real number''))),
       datetime_of = (\<lambda>v. Inl (PyExc (ascii ''Input should be a valid datetime''))),
       coerce_float = (\<lambda>v. case v of
          VInt n \<Rightarrow> Inr (of_int n)
        | _ \<Rightarrow> Inl (PyExc (ascii ''Input should be a valid number''))),
       coerce_int = (\<lambda>v. case v of
          VStr s \<Rightarrow>
            (if s \<noteq> [] \<and> list_all (\<lambda>c. 48 \<le> c \<and> c \<le> 57) s
             then Inr (int (foldl (\<lambda>a c. 10 * a + (c - 48)) 0 s))
             else Inl (PyExc (ascii ''Input should be a valid integer'')))
        | _ \<Rightarrow> Inl (PyExc (ascii ''Input should be a valid integer''))) \<rparr>"

definition example_env :: environ where
  "example_env = (\<lambda>k. if k = ''DATABASE_URL'' then Some (ascii ''mongodb://localhost'') else None)"

definition raising_handle :: "rat db_handle" where
  "raising_handle =
     \<lparr> name_attr = AttrRaises (PyExc (replicate 60 120)), colls = [], fault = None, next_id = 0 \<rparr>"

definition lost_handle :: "rat db_handle" where
  "lost_handle =
     \<lparr> name_attr = Attr (ascii ''typing''), colls = [],
       fault = Some (PyExc (replicate 60 120)), next_id = 0 \<rparr>"

definition crowded_handle :: "rat db_handle" where
  "crowded_handle =
     \<lparr> name_attr = NoAttr, colls = map (\<lambda>i. ([97 + i], [])) [0..<12],
       fault = None, next_id = 0 \<rparr>"


definition empty_handle :: "rat db_handle" where
  "empty_handle =
     \<lparr> name_attr = Attr (ascii ''typing''), colls = [], fault = None, next_id = 0 \<rparr>"

definition example_payload :: "rat SaveResultRequest" where
  "example_payload =
     \<lparr> wpm = 171 / 2, accuracy = 486 / 5, mistakes = 3, duration = 60,
       user_id = Some (ascii ''u1'') \<rparr>"

definition example_body :: "rat document" where
  "example_body =
     [''wpm'' \<mapsto> VFloat (171 / 2), ''accuracy'' \<mapsto> VFloat (486 / 5),
      ''mistakes'' \<mapsto> VInt 3, ''duration'' \<mapsto> VInt 60, ''user_id'' \<mapsto> VStr (ascii ''u1'')]"

text \<open>The same body with a \<open>wpm\<close> that is no number, and with a \<open>created_at\<close> of the client's.\<close>

definition bad_body :: "rat document" where
  "bad_body = example_body(''wpm'' \<mapsto> VStr (ascii ''fast''))"

definition forged_body :: "rat document" where
  "forged_body = example_body(''created_at'' \<mapsto> VDatetime (Aware 0))"

text \<open>
  Stored documents: a complete one, one that has only a \<open>wpm\<close>, two with a naive
  \<open>created_at\<close>, and one whose \<open>wpm\<close> is a text.
\<close>

definition full_doc :: "rat document" where
  "full_doc =
     [''wpm'' \<mapsto> VFloat 80, ''accuracy'' \<mapsto> VFloat 95, ''mistakes'' \<mapsto> VInt 2,
      ''duration'' \<mapsto> VInt 30, ''created_at'' \<mapsto> VDatetime (Aware 500)]"

definition sparse_doc :: "rat document" where
  "sparse_doc = [''wpm'' \<mapsto> VFloat 70]"

definition naive_doc :: "rat document" where
  "naive_doc = [''wpm'' \<mapsto> VFloat 60, ''created_at'' \<mapsto> VDatetime (Naive 100)]"

definition text_doc :: "rat document" where
  "text_doc = [''wpm'' \<mapsto> VStr (ascii ''fast'')]"

definition early_naive_doc :: "rat document" where
  "early_naive_doc = [''wpm'' \<mapsto> VFloat 50, ''created_at'' \<mapsto> VDatetime (Naive 40)]"

definition handle_with :: "rat document list \<Rightarrow> rat db_handle" where
  "handle_with ds =
     \<lparr> name_attr = Attr (ascii ''typing''), colls = [(ascii ''typingresult'', ds)],
       fault = None, next_id = length ds \<rparr>"

definition example_clock :: "nat \<Rightarrow> int" where
  "example_clock i = 1000 + int i"


section \<open>Auxiliary facts\<close>

lemma and_then_Inr [simp]: "and_then (Inr x) k = k x"
  by (simp add: and_then_def)

lemma and_then_Inl [simp]: "and_then (Inl e) k = Inl e"
  by (simp add: and_then_def)

lemma filter_matches_empty [simp]: "filter (matches []) ds = ds"
  by (simp add: matches_def)

lemma get_documents_ok:
  "fault h = None \<Longrightarrow> get_documents h c [] n = Inr (take (nat n) (documents_of h c))"
  by (simp add: get_documents_def)

lemma get_documents_fault:
  "fault h = Some e \<Longrightarrow> get_documents h c flt n = Inl e"
  by (simp add: get_documents_def)

lemma map_of_append_to:
  "map_of (map (\<lambda>(n, ds). if n = c then (n, ds @ [d]) else (n, ds)) xs) c =
     map_option (\<lambda>ds. ds @ [d]) (map_of xs c)"
  by (induction xs) auto

lemma map_of_add_document:
  "map_of (add_document cs c d) c =
     Some ((case map_of cs c of None \<Rightarrow> [] | Some ds \<Rightarrow> ds) @ [d])"
proof (cases "c \<in> fst ` set cs")
  case True
  then obtain ds where "map_of cs c = Some ds"
    by (metis domD dom_map_of_conv_image_fst)
  with True show ?thesis by (simp add: add_document_def map_of_append_to)
next
  case False
  then have "map_of cs c = None" by (simp add: map_of_eq_None_iff)
  with False show ?thesis by (simp add: add_document_def map_add_def)
qed

lemma documents_of_add:
  "documents_of (h\<lparr> colls := add_document (colls h) c d, next_id := n \<rparr>) c =
     documents_of h c @ [d]"
  by (simp add: documents_of_def map_of_add_document)


lemma save_result_ok:
  "fault h = None \<Longrightarrow>
   save_result (Some h) now p =
     (Inr \<lparr> id_str = decimal (next_id h), status = ascii ''ok'' \<rparr>,
      Some (h\<lparr> colls := add_document (colls h) (ascii ''typingresult'')
                  ((model_dump p)(''created_at'' \<mapsto> VDatetime (Aware now),
                                  ''_id'' \<mapsto> VStr (decimal (next_id h)))),
               next_id := Suc (next_id h) \<rparr>))"
  by (simp add: save_result_def create_document_def Let_def)

lemma save_result_fault:
  "fault h = Some e \<Longrightarrow>
   save_result (Some h) now p = (Inl (HTTPException 500 (str_exc e)), Some h)"
  by (simp add: save_result_def create_document_def)

lemma list_results_ok:
  "fault h = None \<Longrightarrow>
   list_results R clock (Some h) (Some n) =
     (case and_then
             (normalize_docs R clock 0
                (take (nat n) (documents_of h (ascii ''typingresult''))))
             sort_results of
        Inr results \<Rightarrow> Inr results
      | Inl e \<Rightarrow> Inl (HTTPException 500 (str_exc e)))"
  by (simp add: list_results_def get_documents_ok)

lemma normalize_docs_length:
  "normalize_docs R clock i ds = Inr rs \<Longrightarrow> length rs = length ds"
  by (induction ds arbitrary: i rs) (auto simp: and_then_def split: sum.splits)

lemma sort_results_length: "sort_results rs = Inr rs' \<Longrightarrow> length rs' = length rs"
  by (auto simp: sort_results_def split: if_splits)

lemma sort_results_sorted:
  "sort_results rs = Inr rs' \<Longrightarrow>
     sorted (map (\<lambda>x. instant (created_at x)) rs') \<and> mset rs' = mset rs"
  by (auto simp: sort_results_def split: if_splits)

lemma sort_results_uniform:
  assumes "list_all (\<lambda>r. is_naive (created_at r)) rs
           \<or> list_all (\<lambda>r. \<not> is_naive (created_at r)) rs"
  shows "sort_results rs = Inr (sort_key (\<lambda>x. instant (created_at x)) rs)"
  using assms
  by (auto simp: sort_results_def mixed_zones_def list_ex_iff list_all_iff)

lemma normalize_doc_expected:
  assumes "document_converts R d"
  shows "normalize_doc R now d = Inr (expected_record R now d)"
  using assms
  by (auto simp: document_converts_def field_converts_def normalize_doc_def expected_record_def
        dict_get_def py_float_def py_int_def validate_datetime_def
      split: option.splits sum.splits)

lemma normalize_docs_expected:
  assumes "list_all (document_converts R) ds"
  shows "normalize_docs R clock i ds =
           Inr (map (\<lambda>(j, d). expected_record R (clock j) d) (enumerate i ds))"
  using assms
  by (induction ds arbitrary: i) (simp_all add: normalize_doc_expected)

lemma expected_record_naive:
  "is_naive (created_at (expected_record R now d)) = naive_created_at R d"
  by (simp add: expected_record_def naive_created_at_def split: option.splits sum.splits)

lemma expected_records_naive:
  "list_all (\<lambda>r. is_naive (created_at r))
     (map (\<lambda>(j, d). expected_record R (clock j) d) (enumerate i ds)) =
   list_all (naive_created_at R) ds"
  by (induction ds arbitrary: i) (simp_all add: expected_record_naive)

lemma expected_records_not_naive:
  "list_all (\<lambda>r. \<not> is_naive (created_at r))
     (map (\<lambda>(j, d). expected_record R (clock j) d) (enumerate i ds)) =
   list_all (\<lambda>d. \<not> naive_created_at R d) ds"
  by (induction ds arbitrary: i) (simp_all add: expected_record_naive)

lemma list_all_take: "list_all P xs \<Longrightarrow> list_all P (take n xs)"
  by (auto simp: list_all_iff dest: in_set_takeD)

lemma list_results_default:
  "list_results R clock db None = list_results R clock db (Some 50)"
  by (simp add: list_results_def)

text \<open>
  On a working handle whose fetched documents convert and have uniform zones, the listing
  is the sorted list of the records that the specification describes.
\<close>

lemma list_results_expected:
  assumes "fault h = None"
    and c: "list_all (document_converts R)
              (take (nat n) (documents_of h (ascii ''typingresult'')))"
    and u: "uniform_zones R (take (nat n) (documents_of h (ascii ''typingresult'')))"
  shows "list_results R clock (Some h) (Some n) =
           Inr (sort_key (\<lambda>x. instant (created_at x))
                  (map (\<lambda>(j, d). expected_record R (clock j) d)
                     (enumerate 0 (take (nat n) (documents_of h (ascii ''typingresult''))))))"
proof -
  let ?ds = "take (nat n) (documents_of h (ascii ''typingresult''))"
  let ?rs = "map (\<lambda>(j, d). expected_record R (clock j) d) (enumerate 0 ?ds)"
  have "normalize_docs R clock 0 ?ds = Inr ?rs"
    by (rule normalize_docs_expected [OF c])
  moreover from u have "list_all (\<lambda>r. is_naive (created_at r)) ?rs
      \<or> list_all (\<lambda>r. \<not> is_naive (created_at r)) ?rs"
    by (simp only: uniform_zones_def expected_records_naive expected_records_not_naive)
  then have "sort_results ?rs = Inr (sort_key (\<lambda>x. instant (created_at x)) ?rs)"
    by (rule sort_results_uniform)
  ultimately show ?thesis using assms(1) by (simp add: list_results_ok)
qed





lemma validate_request_typed:
  assumes "body ''wpm'' = Some (VFloat w)" and "body ''accuracy'' = Some (VFloat a)"
    and "body ''mistakes'' = Some (VInt m)" and "body ''duration'' = Some (VInt u)"
    and "optional_str body ''user_id'' = Inr i"
  shows "validate_request R body =
           Inr \<lparr> wpm = w, accuracy = a, mistakes = m, duration = u, user_id = i \<rparr>"
  using assms
  by (simp add: validate_request_def required_float_def required_int_def)


section \<open>Properties of the diagnostic route\<close>

text \<open>
  Claim C10. In every response of \<open>GET /test\<close>, whatever the state of the database handle,
  the fields \<open>database_url\<close> and \<open>database_name\<close> tell only whether the environment
  variables \<open>DATABASE_URL\<close> and \<open>DATABASE_NAME\<close> hold a non-empty value: the name of the
  connected database, assigned to \<open>database_name\<close> earlier in the handler, is overwritten
  before the response is returned.
\<close>

theorem test_database_reports_environment:
  "database_url (test_database env db) =
     Some (if truthy (env ''DATABASE_URL'')
           then 9989 # ascii '' Set'' else 10060 # ascii '' Not Set'')
   \<and> database_name (test_database env db) =
     Some (if truthy (env ''DATABASE_NAME'')
           then 9989 # ascii '' Set'' else 10060 # ascii '' Not Set'')"
  by (simp add: test_database_def set_or_not_def split: prod.split option.split)

text \<open>
  Claim C7. \<open>GET /test\<close> never fails. For every environment and every state of the handle
  it answers 200 with a status object holding at most 10 collection names. When the handle
  is absent, when reading its name raises, or when listing the collections raises, the
  failure is rendered in the \<open>database\<close> text, an exception's text cut to its first 50
  characters; on a working handle the first 10 collection names are listed.
\<close>

theorem test_database_never_fails:
  "\<exists>r. get_test env db = Inr r
      \<and> http_status (get_test env db) = 200
      \<and> backend r = 9989 # ascii '' Running''
      \<and> length (collections r) \<le> 10
      \<and> (db = None \<longrightarrow>
            database r = [9888, 65039] @ ascii ''  Available but not initialized'')
      \<and> (\<forall>h e. db = Some h \<and> read_name h = Inl e \<longrightarrow>
            database r = 10060 # ascii '' Error: '' @ take 50 (str_exc e))
      \<and> (\<forall>h n e. db = Some h \<and> read_name h = Inr n \<and> list_collection_names h = Inl e \<longrightarrow>
            database r =
              [9888, 65039] @ ascii ''  Connected but Error: '' @ take 50 (str_exc e))
      \<and> (\<forall>h n cs. db = Some h \<and> read_name h = Inr n \<and> list_collection_names h = Inr cs \<longrightarrow>
            database r = 9989 # ascii '' Connected & Working''
            \<and> collections r = take 10 cs)"
  by (cases db)
     (auto simp: get_test_def http_status_def test_database_def inspect_db_def
        inspect_collections_def initial_response_def Let_def
        split: sum.split option.split prod.split)

theorem test_database_never_fails_witness:
  "database (test_database example_env (None :: rat db_handle option)) =
     [9888, 65039] @ ascii ''  Available but not initialized''
   \<and> database (test_database example_env (Some raising_handle)) =
     10060 # ascii '' Error: '' @ replicate 50 120
   \<and> database (test_database example_env (Some lost_handle)) =
     [9888, 65039] @ ascii ''  Connected but Error: '' @ replicate 50 120
   \<and> database (test_database example_env (Some crowded_handle)) =
     9989 # ascii '' Connected & Working''
   \<and> length (colls crowded_handle) = 12
   \<and> length (collections (test_database example_env (Some crowded_handle))) = 10"
  using test_database_never_fails [of example_env "None :: rat db_handle option"]
    test_database_never_fails [of example_env "Some raising_handle"]
    test_database_never_fails [of example_env "Some lost_handle"]
    test_database_never_fails [of example_env "Some crowded_handle"]
  by (simp add: get_test_def read_name_def list_collection_names_def
        raising_handle_def lost_handle_def crowded_handle_def)


section \<open>Properties of the routes on results\<close>

text \<open>
  Claim C2. A \<open>POST /api/results\<close> whose body holds a \<open>wpm\<close> that cannot be coerced to a
  number is rejected by the validation of the request: the answer is the validation error,
  of status 422 (a 4xx status), it names the field \<open>wpm\<close>, the handler and the storage are
  never reached, and the database handle, hence every stored collection, is unchanged.
  This holds whatever the state of the storage, configured or not.
\<close>

theorem post_results_rejects_uncoercible_wpm:
  assumes "body ''wpm'' = Some v" and "isl (required_float R body ''wpm'')"
  shows "\<exists>fs. post_results R db now body = (Inl (RequestValidationError fs), db)
            \<and> ''wpm'' \<in> set fs
            \<and> http_status (fst (post_results R db now body)) = 422
            \<and> http_status (fst (post_results R db now body)) div 100 = 4"
  using assms
  by (auto simp: post_results_def validate_request_def Let_def http_status_def
      split: sum.splits prod.splits)

theorem post_results_rejects_uncoercible_wpm_witness:
  "post_results plain_runtime (Some empty_handle) 7 bad_body =
     (Inl (RequestValidationError [''wpm'']), Some empty_handle)
   \<and> bad_body ''wpm'' = Some (VStr (ascii ''fast''))
   \<and> http_status (fst (post_results plain_runtime (Some empty_handle) 7 bad_body)) = 422"
  using post_results_rejects_uncoercible_wpm
    [of bad_body "VStr (ascii ''fast'')" plain_runtime "Some empty_handle" 7]
  by (simp add: post_results_def validate_request_def required_float_def required_int_def
        optional_str_def bad_body_def example_body_def plain_runtime_def http_status_def)

text \<open>
  Claim C3. For every integer \<open>N \<ge> 0\<close>, a \<open>GET /api/results?limit=N\<close> that returns records
  returns at most \<open>N\<close> of them (an error response carries none); and a request without
  \<open>limit\<close> is served as one with \<open>limit=50\<close>.
\<close>

theorem list_results_at_most_limit:
  assumes "0 \<le> N" and "list_results R clock db (Some N) = Inr rs"
  shows "length rs \<le> nat N
         \<and> list_results R clock db None = list_results R clock db (Some 50)"
proof
  show "length rs \<le> nat N"
  proof (cases db)
    case None
    with assms(2) show ?thesis by (simp add: list_results_def)
  next
    case (Some h)
    show ?thesis
    proof (cases "fault h")
      case None
      with Some assms(2) obtain rs0 where
        n: "normalize_docs R clock 0
              (take (nat N) (documents_of h (ascii ''typingresult''))) = Inr rs0"
        and s: "sort_results rs0 = Inr rs"
        by (auto simp: list_results_ok and_then_def split: sum.splits)
      from n have "length rs0 \<le> nat N"
        by (auto dest: normalize_docs_length)
      with s show ?thesis by (auto dest: sort_results_length)
    next
      case (Some e)
      with \<open>db = Some h\<close> assms(2) show ?thesis
        by (simp add: list_results_def get_documents_fault)
    qed
  qed
next
  show "list_results R clock db None = list_results R clock db (Some 50)"
    by (simp add: list_results_def)
qed

theorem list_results_at_most_limit_witness:
  "list_results plain_runtime example_clock
      (Some (handle_with [full_doc, sparse_doc, full_doc])) (Some 2) =
     Inr [\<lparr> wpm = 80, accuracy = 95, mistakes = 2, duration = 30, created_at = Aware 500 \<rparr>,
          \<lparr> wpm = 70, accuracy = 0, mistakes = 0, duration = 60, created_at = Aware 1001 \<rparr>]
   \<and> list_results plain_runtime example_clock
      (Some (handle_with [full_doc, sparse_doc, full_doc])) None =
     list_results plain_runtime example_clock
      (Some (handle_with [full_doc, sparse_doc, full_doc])) (Some 50)"
  using list_results_at_most_limit [of 2 plain_runtime example_clock
      "Some (handle_with [full_doc, sparse_doc, full_doc])"
      "[\<lparr> wpm = 80, accuracy = 95, mistakes = 2, duration = 30, created_at = Aware 500 \<rparr>,
        \<lparr> wpm = 70, accuracy = 0, mistakes = 0, duration = 60, created_at = Aware 1001 \<rparr>]"]
  by (simp add: list_results_def get_documents_def handle_with_def documents_of_def
        matches_def normalize_doc_def dict_get_def full_doc_def sparse_doc_def
        py_float_def py_int_def validate_datetime_def plain_runtime_def sort_results_def
        mixed_zones_def example_clock_def)

text \<open>
  Claim C5. Whenever a \<open>POST /api/results\<close> succeeds, exactly one document is appended to
  the collection \<open>typingresult\<close>, and its \<open>created_at\<close> is the server's clock reading at the
  insertion, as an aware datetime. This holds for every body, also one that carries a
  \<open>created_at\<close> of its own: no value of the client is persisted under that key.
\<close>

theorem created_at_is_server_assigned:
  assumes "post_results R (Some h) now body = (Inr resp, db')"
  shows "\<exists>h' d. db' = Some h'
           \<and> documents_of h' (ascii ''typingresult'') =
               documents_of h (ascii ''typingresult'') @ [d]
           \<and> d ''created_at'' = Some (VDatetime (Aware now))"
proof -
  from assms obtain p where p: "save_result (Some h) now p = (Inr resp, db')"
    by (auto simp: post_results_def split: sum.splits)
  show ?thesis
  proof (cases "fault h")
    case None
    let ?d = "(model_dump p)(''created_at'' \<mapsto> VDatetime (Aware now),
                             ''_id'' \<mapsto> VStr (decimal (next_id h)))"
    let ?h = "h\<lparr> colls := add_document (colls h) (ascii ''typingresult'') ?d,
                  next_id := Suc (next_id h) \<rparr>"
    from None have "save_result (Some h) now p =
        (Inr \<lparr> id_str = decimal (next_id h), status = ascii ''ok'' \<rparr>, Some ?h)"
      by (rule save_result_ok)
    with p have "db' = Some ?h" by simp
    moreover have "documents_of ?h (ascii ''typingresult'') =
        documents_of h (ascii ''typingresult'') @ [?d]"
      by (rule documents_of_add)
    moreover have "?d ''created_at'' = Some (VDatetime (Aware now))" by simp
    ultimately show ?thesis by blast
  next
    case (Some e)
    with p show ?thesis by (simp add: save_result_fault)
  qed
qed

theorem created_at_is_server_assigned_witness:
  "fst (post_results plain_runtime (Some empty_handle) 7 forged_body) =
     Inr \<lparr> id_str = [48], status = ascii ''ok'' \<rparr>
   \<and> forged_body ''created_at'' = Some (VDatetime (Aware 0))
   \<and> map (\<lambda>d. d ''created_at'')
        (documents_of (the (snd (post_results plain_runtime (Some empty_handle) 7 forged_body)))
           (ascii ''typingresult'')) =
     [Some (VDatetime (Aware 7))]"
  using created_at_is_server_assigned [of plain_runtime empty_handle 7 forged_body
      "\<lparr> id_str = [48], status = ascii ''ok'' \<rparr>"
      "snd (post_results plain_runtime (Some empty_handle) 7 forged_body)"]
  by (simp add: post_results_def validate_request_def required_float_def required_int_def
        optional_str_def forged_body_def example_body_def plain_runtime_def
        save_result_def create_document_def empty_handle_def add_document_def
        documents_of_def decimal.simps Let_def model_dump_def)

text \<open>
  Claim C8, as stated: a storage failure during \<open>POST\<close> or \<open>GET /api/results\<close> is answered
  by a 500 response that carries a truncated description of the failure. The routes do not
  truncate: with a failure whose text has 60 characters, the detail of the response is that
  whole text, not its first 50 characters (the cut that the diagnostic route applies).
\<close>

theorem storage_failure_detail_is_not_truncated:
  "fault lost_handle = Some (PyExc (replicate 60 120))
   \<and> fst (save_result (Some lost_handle) 7 example_payload) =
       Inl (HTTPException 500 (replicate 60 120))
   \<and> fst (save_result (Some lost_handle) 7 example_payload) \<noteq>
       Inl (HTTPException 500 (take 50 (replicate 60 120)))
   \<and> list_results plain_runtime example_clock (Some lost_handle) None =
       Inl (HTTPException 500 (replicate 60 120))
   \<and> list_results plain_runtime example_clock (Some lost_handle) None \<noteq>
       Inl (HTTPException 500 (take 50 (replicate 60 120)))"
  by (simp add: lost_handle_def save_result_def create_document_def list_results_def
        get_documents_def)

text \<open>
  Claim C8, amended. For every storage failure during \<open>POST\<close> or \<open>GET /api/results\<close>, the
  response has status 500 and its detail is the text \<open>str(e)\<close> of the failure, in full;
  a failed insert leaves the storage as it was.
\<close>

theorem storage_failure_detail_in_full:
  assumes "fault h = Some e"
  shows "save_result (Some h) now p = (Inl (HTTPException 500 (str_exc e)), Some h)
         \<and> list_results R clock (Some h) limit = Inl (HTTPException 500 (str_exc e))
         \<and> http_status (fst (save_result (Some h) now p)) = 500
         \<and> http_status (list_results R clock (Some h) limit) = 500"
  using assms
  by (simp add: save_result_fault list_results_def get_documents_fault http_status_def)

theorem storage_failure_detail_in_full_witness:
  "save_result (Some lost_handle) 7 example_payload =
     (Inl (HTTPException 500 (replicate 60 120)), Some lost_handle)
   \<and> list_results plain_runtime example_clock (Some lost_handle) (Some 10) =
     Inl (HTTPException 500 (replicate 60 120))
   \<and> fault lost_handle = Some (PyExc (replicate 60 120))"
  using storage_failure_detail_in_full
    [of lost_handle "PyExc (replicate 60 120)" 7 example_payload plain_runtime
      example_clock "Some 10"]
  by (simp add: lost_handle_def)

text \<open>
  Claim C9, as stated: every record returned by \<open>GET /api/results\<close> has the shape of a
  stored result, the fields of the posted result (with \<open>user_id\<close> when present) together
  with \<open>id\<close> and \<open>created_at\<close>. After a result with a \<open>user_id\<close> is posted to an empty
  collection, the stored document holds \<open>user_id\<close> and \<open>_id\<close>, and the listing returns one
  record made of \<open>wpm\<close>, \<open>accuracy\<close>, \<open>mistakes\<close>, \<open>duration\<close> and \<open>created_at\<close> only.
\<close>

theorem listed_record_has_no_id_or_user_id:
  "map_sum id (map record_fields)
     (list_results plain_runtime example_clock
        (snd (post_results plain_runtime (Some empty_handle) 7 example_body)) None) =
     Inr [[(''wpm'', VFloat (171 / 2)), (''accuracy'', VFloat (486 / 5)),
           (''mistakes'', VInt 3), (''duration'', VInt 60),
           (''created_at'', VDatetime (Aware 7))]]
   \<and> map (\<lambda>d. (d ''user_id'', d ''_id''))
        (documents_of (the (snd (post_results plain_runtime (Some empty_handle) 7 example_body)))
           (ascii ''typingresult'')) =
     [(Some (VStr (ascii ''u1'')), Some (VStr [48]))]"
  by (simp add: post_results_def validate_request_def required_float_def required_int_def
        optional_str_def example_body_def plain_runtime_def
        save_result_def create_document_def empty_handle_def add_document_def
        documents_of_def decimal.simps Let_def model_dump_def
        list_results_def get_documents_def matches_def normalize_doc_def dict_get_def
        py_float_def py_int_def validate_datetime_def sort_results_def mixed_zones_def
        record_fields_def)

text \<open>
  Claim C9, amended. Every record returned by \<open>GET /api/results\<close> has the shape of
  \<open>ResultRecord\<close>: exactly the fields \<open>wpm\<close>, \<open>accuracy\<close>, \<open>mistakes\<close>, \<open>duration\<close> and
  \<open>created_at\<close>, in this order, with neither \<open>id\<close> nor \<open>user_id\<close>; and the record made from
  a stored document does not depend on the document's \<open>user_id\<close> or \<open>_id\<close>.
\<close>

theorem listed_records_have_result_record_shape:
  "map_sum id (map (\<lambda>r. map fst (record_fields r))) (list_results R clock db limit) =
     map_sum id (map (\<lambda>r. [''wpm'', ''accuracy'', ''mistakes'', ''duration'', ''created_at'']))
       (list_results R clock db limit)
   \<and> normalize_doc R now (d(''user_id'' := u, ''_id'' := i)) = normalize_doc R now d"
  by (simp add: record_fields_def normalize_doc_def dict_get_def)

text \<open>
  Claim C6, as stated: with the storage unconfigured, every \<open>POST /api/results\<close> and every
  \<open>GET /api/results\<close> is answered by a 500, and \<open>GET /test\<close> reports the database as
  unavailable. A \<open>POST\<close> whose body fails validation and a \<open>GET\<close> whose \<open>limit\<close> is no integer
  are answered by the validation error, of status 422, before the handler looks at the
  storage; and the \<open>database\<close> text of \<open>GET /test\<close> is not the initial \<open>Not Available\<close> but
  \<open>Available but not initialized\<close>.
\<close>

theorem unconfigured_invalid_requests_are_422:
  "post_results plain_runtime None 7 bad_body = (Inl (RequestValidationError [''wpm'']), None)
   \<and> http_status (fst (post_results plain_runtime None 7 bad_body)) = 422
   \<and> get_results plain_runtime example_clock None (Some (ascii ''abc'')) =
       Inl (RequestValidationError [''limit''])
   \<and> http_status (get_results plain_runtime example_clock None (Some (ascii ''abc''))) = 422
   \<and> database (test_database example_env (None :: rat db_handle option)) =
       [9888, 65039] @ ascii ''  Available but not initialized''
   \<and> database (test_database example_env (None :: rat db_handle option)) \<noteq>
       database initial_response"
  by (simp add: post_results_def validate_request_def required_float_def required_int_def
        optional_str_def bad_body_def example_body_def plain_runtime_def http_status_def
        get_results_def validate_limit_def ascii_def
        test_database_def inspect_db_def initial_response_def)

text \<open>
  Claim C6, amended. With the storage unconfigured, every \<open>POST /api/results\<close> whose body
  passes validation and every \<open>GET /api/results\<close> whose \<open>limit\<close> is absent or passes
  validation is answered by a 500 whose detail is the non-empty text
  \<open>Database not configured\<close>, while \<open>GET /test\<close> still answers 200, with the \<open>database\<close> text
  \<open>Available but not initialized\<close> (after the warning sign), the connection status
  \<open>Not Connected\<close> and no collection name.
\<close>

theorem unconfigured_storage_responses:
  assumes "validate_request R body = Inr p" and "validate_limit R q = Inr limit"
  shows "post_results R None now body =
           (Inl (HTTPException 500 (ascii ''Database not configured'')), None)
         \<and> save_result None now p =
           (Inl (HTTPException 500 (ascii ''Database not configured'')), None)
         \<and> get_results R clock None q =
           Inl (HTTPException 500 (ascii ''Database not configured''))
         \<and> list_results R clock None limit =
           Inl (HTTPException 500 (ascii ''Database not configured''))
         \<and> http_status (fst (post_results R None now body)) = 500
         \<and> http_status (get_results R clock None q) = 500
         \<and> ascii ''Database not configured'' \<noteq> []
         \<and> http_status (get_test env None) = 200
         \<and> database (test_database env None) =
             [9888, 65039] @ ascii ''  Available but not initialized''
         \<and> connection_status (test_database env None) = ascii ''Not Connected''
         \<and> collections (test_database env None) = []"
  using assms
  by (simp add: post_results_def save_result_def get_results_def list_results_def
        http_status_def get_test_def test_database_def inspect_db_def initial_response_def
        ascii_def)

theorem unconfigured_storage_responses_witness:
  "validate_request plain_runtime example_body = Inr example_payload
   \<and> validate_limit plain_runtime (Some (ascii ''25'')) = Inr (Some 25)
   \<and> post_results plain_runtime None 7 example_body =
       (Inl (HTTPException 500 (ascii ''Database not configured'')), None)
   \<and> get_results plain_runtime example_clock None (Some (ascii ''25'')) =
       Inl (HTTPException 500 (ascii ''Database not configured''))"
proof -
  have valid: "validate_request plain_runtime example_body = Inr example_payload"
    by (simp add: validate_request_def required_float_def required_int_def
          optional_str_def example_body_def example_payload_def)
  have limit: "validate_limit plain_runtime (Some (ascii ''25'')) = Inr (Some 25)"
    by (simp add: validate_limit_def plain_runtime_def ascii_def)
  from unconfigured_storage_responses [OF valid limit, of 7 example_clock example_env]
  have "post_results plain_runtime None 7 example_body =
          (Inl (HTTPException 500 (ascii ''Database not configured'')), None)"
    and "get_results plain_runtime example_clock None (Some (ascii ''25'')) =
          Inl (HTTPException 500 (ascii ''Database not configured''))"
    by blast+
  with valid limit show ?thesis by blast
qed

text \<open>
  Claim C4, as stated: for every set of stored documents the listing renders each document
  with the defaults for its missing fields, a missing field never fails the fetch, and the
  records come back sorted. Two stored documents, one with a naive \<open>created_at\<close> (as a
  driver that is not timezone-aware returns it) and one without \<open>created_at\<close>, fail the
  fetch: the default is an aware datetime, and the sort cannot compare the two. Each of the
  two documents alone is listed. A document whose \<open>wpm\<close> is a text that is no number fails
  the fetch as well, and so does an unconfigured or failing storage.
\<close>

theorem list_results_fails_on_missing_created_at:
  "list_results plain_runtime example_clock (Some (handle_with [naive_doc, sparse_doc])) None =
     Inl (HTTPException 500
            (ascii ''can'' @ [39] @ ascii ''t compare offset-naive and offset-aware datetimes''))
   \<and> sparse_doc ''created_at'' = None
   \<and> list_results plain_runtime example_clock (Some (handle_with [naive_doc])) None =
     Inr [\<lparr> wpm = 60, accuracy = 0, mistakes = 0, duration = 60, created_at = Naive 100 \<rparr>]
   \<and> list_results plain_runtime example_clock (Some (handle_with [sparse_doc])) None =
     Inr [\<lparr> wpm = 70, accuracy = 0, mistakes = 0, duration = 60, created_at = Aware 1000 \<rparr>]
   \<and> http_status (list_results plain_runtime example_clock (Some (handle_with [text_doc])) None)
       = 500
   \<and> http_status (list_results plain_runtime example_clock (Some lost_handle) None) = 500
   \<and> http_status (list_results plain_runtime example_clock None None) = 500"
  by (simp add: list_results_def get_documents_def handle_with_def documents_of_def
        matches_def normalize_doc_def dict_get_def naive_doc_def sparse_doc_def text_doc_def
        py_float_def py_int_def validate_datetime_def plain_runtime_def sort_results_def
        mixed_zones_def example_clock_def http_status_def lost_handle_def)

text \<open>
  Claim C4, amended. On a working handle, when every field that is present in a fetched
  document converts (\<open>wpm\<close> and \<open>accuracy\<close> by \<open>float\<close>, \<open>mistakes\<close> and \<open>duration\<close> by
  \<open>int\<close>, \<open>created_at\<close> validating as a datetime) and the fetched documents have uniform
  zones (their \<open>created_at\<close> are all naive, or none is, a missing one counting as aware),
  the listing succeeds, its records are those of the specification (a missing \<open>wpm\<close>,
  \<open>accuracy\<close> or \<open>mistakes\<close> is 0, a missing \<open>duration\<close> is 60, a missing \<open>created_at\<close> is
  the clock reading of that iteration, as an aware datetime), one for each fetched
  document, and they are sorted non-decreasing by \<open>created_at\<close>.
\<close>

theorem list_results_defaults_and_order:
  assumes "fault h = None"
    and "docs = take (nat (case limit of None \<Rightarrow> 50 | Some k \<Rightarrow> k))
                  (documents_of h (ascii ''typingresult''))"
    and "list_all (document_converts R) docs"
    and "uniform_zones R docs"
  shows "\<exists>rs. list_results R clock (Some h) limit = Inr rs
           \<and> sorted (map (\<lambda>x. instant (created_at x)) rs)
           \<and> mset rs = mset (map (\<lambda>(j, d). expected_record R (clock j) d) (enumerate 0 docs))
           \<and> expected_record R now Map.empty =
               \<lparr> wpm = float_zero R, accuracy = float_zero R, mistakes = 0, duration = 60,
                 created_at = Aware now \<rparr>"
proof -
  let ?n = "case limit of None \<Rightarrow> 50 | Some k \<Rightarrow> k"
  let ?ds = "take (nat ?n) (documents_of h (ascii ''typingresult''))"
  have "list_results R clock (Some h) limit = list_results R clock (Some h) (Some ?n)"
    by (cases limit) (simp_all add: list_results_default)
  moreover from assms(2,3) have c: "list_all (document_converts R) ?ds" by simp
  from assms(2,4) have u: "uniform_zones R ?ds" by simp
  note list_results_expected [OF assms(1) c u, of clock]
  ultimately show ?thesis
    using assms(2) by (simp add: expected_record_def)
qed

theorem list_results_defaults_and_order_witness:
  "list_results plain_runtime example_clock (Some (handle_with [sparse_doc, full_doc])) (Some 5) =
     Inr [\<lparr> wpm = 80, accuracy = 95, mistakes = 2, duration = 30, created_at = Aware 500 \<rparr>,
          \<lparr> wpm = 70, accuracy = 0, mistakes = 0, duration = 60, created_at = Aware 1000 \<rparr>]
   \<and> map sparse_doc [''accuracy'', ''mistakes'', ''duration'', ''created_at''] =
       [None, None, None, None]
   \<and> list_results plain_runtime example_clock
       (Some (handle_with [naive_doc, early_naive_doc])) None =
     Inr [\<lparr> wpm = 50, accuracy = 0, mistakes = 0, duration = 60, created_at = Naive 40 \<rparr>,
          \<lparr> wpm = 60, accuracy = 0, mistakes = 0, duration = 60, created_at = Naive 100 \<rparr>]"
proof -
  let ?h = "handle_with [sparse_doc, full_doc]"
  let ?k = "handle_with [naive_doc, early_naive_doc]"
  have healthy: "fault ?h = None" "fault ?k = None" by (simp_all add: handle_with_def)
  have docs: "[sparse_doc, full_doc] =
      take (nat (case Some 5 of None \<Rightarrow> 50 | Some k \<Rightarrow> k))
        (documents_of ?h (ascii ''typingresult''))"
    by (simp add: handle_with_def documents_of_def)
  have conv: "list_all (document_converts plain_runtime) [sparse_doc, full_doc]"
    by (simp add: document_converts_def field_converts_def sparse_doc_def full_doc_def
          py_float_def py_int_def validate_datetime_def)
  have zones: "uniform_zones plain_runtime [sparse_doc, full_doc]"
    by (simp add: uniform_zones_def naive_created_at_def sparse_doc_def full_doc_def
          validate_datetime_def)
  have docs': "[naive_doc, early_naive_doc] =
      take (nat (case None of None \<Rightarrow> 50 | Some k \<Rightarrow> k))
        (documents_of ?k (ascii ''typingresult''))"
    by (simp add: handle_with_def documents_of_def)
  have conv': "list_all (document_converts plain_runtime) [naive_doc, early_naive_doc]"
    by (simp add: document_converts_def field_converts_def naive_doc_def early_naive_doc_def
          py_float_def py_int_def validate_datetime_def)
  have zones': "uniform_zones plain_runtime [naive_doc, early_naive_doc]"
    by (simp add: uniform_zones_def naive_created_at_def naive_doc_def early_naive_doc_def
          validate_datetime_def)
  from list_results_defaults_and_order [OF healthy(1) docs conv zones, of example_clock 0]
    list_results_defaults_and_order [OF healthy(2) docs' conv' zones', of example_clock 0]
  show ?thesis
    by (simp add: list_results_def get_documents_def handle_with_def documents_of_def
        matches_def normalize_doc_def dict_get_def full_doc_def sparse_doc_def
        naive_doc_def early_naive_doc_def
        py_float_def py_int_def validate_datetime_def plain_runtime_def sort_results_def
        mixed_zones_def example_clock_def)
qed




end
